theory Spec2Isabelle
  imports Complex_Main
begin

section \<open>JavaScript values\<close>

text \<open>
  The server (\<^verbatim>\<open>src/server.ts\<close>) is untyped at its edges: request bodies, query
  parameters and upstream responses are whatever JSON the peer sent. The model keeps
  that: a value read from such data is a \<open>jsval\<close>, and the built-in operations the
  handlers apply to it (\<^verbatim>\<open>parseFloat\<close>, \<^verbatim>\<open>||\<close>, property reads, \<^verbatim>\<open>toFixed\<close>, string
  conversion) follow ECMAScript.

  A number is \<open>NaN\<close>, an infinity, or \<open>Fin r\<close> for the real \<open>r\<close> it denotes. Where a
  decimal text leaves the range of binary64 it reads as an infinity or as zero, as in
  the code; rounding inside the range is not modelled: there a decimal text denotes its
  exact value, and sums and products are exact. Both zeros are \<open>Fin 0\<close>. Comparisons of two numbers are exact in JavaScript,
  and no binary64 number lies strictly between the literal \<^verbatim>\<open>0.7\<close> (or \<^verbatim>\<open>0.4\<close>) and the
  real \<open>7/10\<close> (or \<open>4/10\<close>), so comparing with the real threshold decides as the code
  does.
\<close>

datatype jsnum = NaN | PosInf | NegInf | Fin real

text \<open>
  \<open>JUndefined\<close> is what reading an absent property gives; JSON data itself never
  contains it. \<open>JObject\<close> lists the own properties of an object parsed from JSON, the
  first entry for a name counting.
\<close>

datatype jsval =
    JUndefined
  | JNull
  | JBool bool
  | JNumber jsnum
  | JString string
  | JArray "jsval list"
  | JObject "(string \<times> jsval) list"

datatype exn = TypeError | OtherError

text \<open>
  Text. The digits that \<^verbatim>\<open>Number::toString\<close> prints for a number depend on its binary
  representation, so the text of a number is kept as one token \<open>NumText n\<close>; every
  other character is a \<open>Ch\<close>. Nothing below looks inside a \<open>NumText\<close>.
\<close>

datatype tchar = Ch char | NumText jsnum

type_synonym jstext = "tchar list"

definition lit :: "string \<Rightarrow> jstext" where
  "lit s = map Ch s"

text \<open>
  \<^verbatim>\<open>ToString\<close> (ECMAScript 7.1.17). An array prints its elements joined by commas,
  \<^verbatim>\<open>null\<close> and \<^verbatim>\<open>undefined\<close> elements as nothing. An object goes through
  \<^verbatim>\<open>OrdinaryToPrimitive\<close> with hint string: an own \<^verbatim>\<open>toString\<close> property of a JSON
  object is data, not a function, so it hides \<^verbatim>\<open>Object.prototype.toString\<close>, and
  \<^verbatim>\<open>valueOf\<close> (own: not callable; inherited: returns the object) gives no primitive
  either: a TypeError is thrown. Without that own property the result is
  \<^verbatim>\<open>[object Object]\<close>.
\<close>

fun ToString :: "jsval \<Rightarrow> exn + jstext"
  and join :: "jsval list \<Rightarrow> exn + jstext"
  and element :: "jsval \<Rightarrow> exn + jstext"
where
  "ToString JUndefined = Inr (lit ''undefined'')"
| "ToString JNull = Inr (lit ''null'')"
| "ToString (JBool b) = Inr (lit (if b then ''true'' else ''false''))"
| "ToString (JNumber n) = Inr [NumText n]"
| "ToString (JString s) = Inr (lit s)"
| "ToString (JArray xs) = join xs"
| "ToString (JObject ps) =
     (if ''toString'' \<in> fst ` set ps then Inl TypeError
      else Inr (lit ''[object Object]''))"
| "join [] = Inr []"
| "join [x] = element x"
| "join (x # y # ys) =
     (case element x of
        Inl e \<Rightarrow> Inl e
      | Inr t \<Rightarrow>
          (case join (y # ys) of
             Inl e \<Rightarrow> Inl e
           | Inr u \<Rightarrow> Inr (t @ Ch (CHR '','') # u)))"
| "element JUndefined = Inr []"
| "element JNull = Inr []"
| "element (JBool b) = ToString (JBool b)"
| "element (JNumber n) = ToString (JNumber n)"
| "element (JString s) = ToString (JString s)"
| "element (JArray xs) = ToString (JArray xs)"
| "element (JObject ps) = ToString (JObject ps)"

text \<open>Truthiness (\<^verbatim>\<open>ToBoolean\<close>) and the \<^verbatim>\<open>||\<close> operator.\<close>

fun truthy_num :: "jsnum \<Rightarrow> bool" where
  "truthy_num NaN = False"
| "truthy_num (Fin r) = (r \<noteq> 0)"
| "truthy_num PosInf = True"
| "truthy_num NegInf = True"

fun truthy :: "jsval \<Rightarrow> bool" where
  "truthy JUndefined = False"
| "truthy JNull = False"
| "truthy (JBool b) = b"
| "truthy (JNumber n) = truthy_num n"
| "truthy (JString s) = (s \<noteq> [])"
| "truthy (JArray xs) = True"
| "truthy (JObject ps) = True"

definition js_or :: "jsval \<Rightarrow> jsval \<Rightarrow> jsval" where
  "js_or a b = (if truthy a then a else b)"

definition num_or :: "jsnum \<Rightarrow> jsnum \<Rightarrow> jsnum" where
  "num_or a b = (if truthy_num a then a else b)"

section \<open>parseFloat\<close>

text \<open>
  \<^verbatim>\<open>parseFloat\<close> (ECMAScript 19.2.4): convert the argument to text, drop leading white
  space, and read the longest prefix that is a \<^verbatim>\<open>StrDecimalLiteral\<close>; \<open>NaN\<close> when there
  is none. A string is a sequence of 8-bit code units (U+0000 to U+00FF); the white
  space is the part of \<^verbatim>\<open>StrWhiteSpaceChar\<close> in that range: tab, line feed, vertical
  tab, form feed, carriage return, space and the no-break space U+00A0.
\<close>

definition is_digit :: "char \<Rightarrow> bool" where
  "is_digit c = (c \<in> set ''0123456789'')"

definition digit_value :: "char \<Rightarrow> nat" where
  \<comment> \<open>the position of a digit among the ten digits\<close>
  "digit_value c = length (takeWhile (\<lambda>d. d \<noteq> c) ''0123456789'')"

definition digits_value :: "string \<Rightarrow> nat" where
  "digits_value ds = foldl (\<lambda>a c. 10 * a + digit_value c) 0 ds"

definition is_space :: "char \<Rightarrow> bool" where
  "is_space c = (c \<in> {CHR 0x09, CHR 0x0A, CHR 0x0B, CHR 0x0C, CHR 0x0D, CHR 0x20, CHR 0xA0})"

definition scale10 :: "real \<Rightarrow> int \<Rightarrow> real" where
  "scale10 x e = (if 0 \<le> e then x * 10 ^ nat e else x / 10 ^ nat (- e))"

definition ExponentPart :: "string \<Rightarrow> int" where
  \<comment> \<open>the value of the exponent part at the head of the text, 0 when there is none\<close>
  "ExponentPart s =
     (case s of
        [] \<Rightarrow> 0
      | c # r \<Rightarrow>
          if c = CHR ''e'' \<or> c = CHR ''E'' then
            (case r of
               [] \<Rightarrow> 0
             | g # r' \<Rightarrow>
                 if g = CHR ''-'' then - int (digits_value (takeWhile is_digit r'))
                 else if g = CHR ''+'' then int (digits_value (takeWhile is_digit r'))
                 else int (digits_value (takeWhile is_digit r)))
          else 0)"

text \<open>
  The number for a non-negative mathematical value: at or above the midpoint between the
  largest binary64 number and \<open>2^1024\<close> it is \<open>Infinity\<close>, at or below half the smallest
  positive binary64 number it is zero.
\<close>

definition binary64_range :: "real \<Rightarrow> jsnum" where
  "binary64_range x =
     (if 2 ^ 1024 - 2 ^ 970 \<le> x then PosInf
      else if x \<le> 1 / 2 ^ 1075 then Fin 0
      else Fin x)"

definition StrUnsignedDecimalLiteral :: "string \<Rightarrow> jsnum" where
  "StrUnsignedDecimalLiteral s =
     (if take 8 s = ''Infinity'' then PosInf
      else
        let ip = takeWhile is_digit s;
            r1 = dropWhile is_digit s;
            dot = (r1 \<noteq> [] \<and> hd r1 = CHR ''.'');
            fp = (if dot then takeWhile is_digit (tl r1) else []);
            r2 = (if dot then dropWhile is_digit (tl r1) else r1)
        in if ip = [] \<and> fp = [] then NaN
           else binary64_range
                  (scale10 (real (digits_value ip) + real (digits_value fp) / 10 ^ length fp)
                     (ExponentPart r2)))"

fun negate :: "jsnum \<Rightarrow> jsnum" where
  "negate NaN = NaN"
| "negate PosInf = NegInf"
| "negate NegInf = PosInf"
| "negate (Fin r) = Fin (- r)"

definition StrDecimalLiteral :: "string \<Rightarrow> jsnum" where
  "StrDecimalLiteral s =
     (case s of
        [] \<Rightarrow> NaN
      | c # r \<Rightarrow>
          if c = CHR ''-'' then negate (StrUnsignedDecimalLiteral r)
          else if c = CHR ''+'' then StrUnsignedDecimalLiteral r
          else StrUnsignedDecimalLiteral s)"

fun leading_chars :: "jstext \<Rightarrow> string" where
  "leading_chars [] = []"
| "leading_chars (Ch c # t) = c # leading_chars t"
| "leading_chars (NumText n # t) = []"

text \<open>
  The text of a number reads back as that number (\<^verbatim>\<open>Number::toString\<close> prints digits
  that round-trip, and \<^verbatim>\<open>NaN\<close> reads as \<open>NaN\<close>). In a joined array a number's text is
  followed by a comma or by the end, neither of which continues a literal.
\<close>

fun is_space_tchar :: "tchar \<Rightarrow> bool" where
  "is_space_tchar (Ch c) = is_space c"
| "is_space_tchar (NumText n) = False"

definition parse_text :: "jstext \<Rightarrow> jsnum" where
  "parse_text t =
     (case dropWhile is_space_tchar t of
        NumText n # _ \<Rightarrow> n
      | u \<Rightarrow> StrDecimalLiteral (leading_chars u))"

definition parseFloat :: "jsval \<Rightarrow> exn + jsnum" where
  "parseFloat v = (case ToString v of Inl e \<Rightarrow> Inl e | Inr t \<Rightarrow> Inr (parse_text t))"

section \<open>The prediction endpoint\<close>

text \<open>
  \<^verbatim>\<open>const { rainfall, altitude, areaElevation, roadElevation, drainageSystem } = req.body\<close>:
  the five properties read from the body, which is the object \<^verbatim>\<open>express.json()\<close> parsed
  from the request; \<open>JUndefined\<close> stands for a property that is absent.
\<close>

record predict_body =
  rainfall :: jsval
  altitude :: jsval
  areaElevation :: jsval
  roadElevation :: jsval
  drainageSystem :: jsval

text \<open>
  An entry of the array \<^verbatim>\<open>input\<close>. The first four are numbers. The fifth is what the
  read \<^verbatim>\<open>drainageSystemMap[drainageSystem]\<close> gave: \<^verbatim>\<open>drainageSystemMap\<close> is an object
  literal, so a read that finds no own property goes on to \<^verbatim>\<open>Object.prototype\<close> and
  returns its member of that name (a built-in function; for \<^verbatim>\<open>__proto__\<close> the
  prototype object itself), here \<open>Inherited name\<close>.
\<close>

datatype feature = Num jsnum | Inherited string

definition drainageSystemMap :: "(string \<times> jsnum) list" where
  "drainageSystemMap = [(''Fair'', Fin 1), (''Good'', Fin 2), (''Very Good'', Fin 3)]"

definition Object_prototype :: "string list" where
  "Object_prototype =
     [''constructor'', ''__defineGetter__'', ''__defineSetter__'', ''hasOwnProperty'',
      ''__lookupGetter__'', ''__lookupSetter__'', ''isPrototypeOf'',
      ''propertyIsEnumerable'', ''toString'', ''valueOf'', ''__proto__'',
      ''toLocaleString'']"

text \<open>
  The read \<^verbatim>\<open>obj[key]\<close>: the key is converted to a property name (\<^verbatim>\<open>ToPropertyKey\<close>,
  which is \<^verbatim>\<open>ToString\<close> on these values and can throw), then own properties are
  searched, then the prototype. The text of a number is never one of these names.
\<close>

fun chars :: "jstext \<Rightarrow> string option" where
  "chars [] = Some []"
| "chars (Ch c # t) = map_option ((#) c) (chars t)"
| "chars (NumText n # t) = None"

definition get_property :: "(string \<times> jsnum) list \<Rightarrow> jsval \<Rightarrow> exn + feature option" where
  "get_property obj key =
     (case ToString key of
        Inl e \<Rightarrow> Inl e
      | Inr t \<Rightarrow>
          (case chars t of
             None \<Rightarrow> Inr None
           | Some name \<Rightarrow>
               (case map_of obj name of
                  Some n \<Rightarrow> Inr (Some (Num n))
                | None \<Rightarrow>
                    if name \<in> set Object_prototype then Inr (Some (Inherited name))
                    else Inr None)))"

fun truthy_feature :: "feature \<Rightarrow> bool" where
  "truthy_feature (Num n) = truthy_num n"
| "truthy_feature (Inherited name) = True"

definition drainageValue :: "jsval \<Rightarrow> exn + feature" where
  \<comment> \<open>\<^verbatim>\<open>drainageSystemMap[drainageSystem] || 2\<close>\<close>
  "drainageValue d =
     (case get_property drainageSystemMap d of
        Inl e \<Rightarrow> Inl e
      | Inr None \<Rightarrow> Inr (Num (Fin 2))
      | Inr (Some f) \<Rightarrow> Inr (if truthy_feature f then f else Num (Fin 2)))"

definition number_or_zero :: "jsval \<Rightarrow> exn + feature" where
  \<comment> \<open>\<^verbatim>\<open>parseFloat(x) || 0\<close>\<close>
  "number_or_zero x =
     (case parseFloat x of Inl e \<Rightarrow> Inl e | Inr n \<Rightarrow> Inr (Num (num_or n (Fin 0))))"

text \<open>
  The array \<^verbatim>\<open>input\<close>, in the order the source evaluates it; the first exception ends
  the evaluation.
\<close>

definition input :: "predict_body \<Rightarrow> exn + feature list" where
  "input body =
     (case drainageValue (drainageSystem body) of
        Inl e \<Rightarrow> Inl e
      | Inr d \<Rightarrow>
     (case number_or_zero (rainfall body) of
        Inl e \<Rightarrow> Inl e
      | Inr r \<Rightarrow>
     (case number_or_zero (altitude body) of
        Inl e \<Rightarrow> Inl e
      | Inr a \<Rightarrow>
     (case number_or_zero (areaElevation body) of
        Inl e \<Rightarrow> Inl e
      | Inr ae \<Rightarrow>
     (case number_or_zero (roadElevation body) of
        Inl e \<Rightarrow> Inl e
      | Inr re \<Rightarrow> Inr [r, a, ae, re, d])))))"

text \<open>
  The classifier is the third-party \<^verbatim>\<open>ml-random-forest\<close> object \<^verbatim>\<open>rf\<close>, trained at
  start-up; its code is not part of the repository, so it is a parameter.
  \<open>predict rf v\<close> is \<^verbatim>\<open>rf.predict([v])[0]\<close>, the label; \<open>predictProbability rf v\<close> is
  \<^verbatim>\<open>rf.predictProbability([v])[0]\<close>, the numbers that \<^verbatim>\<open>probabilities[1]\<close> indexes
  (a result that is a plain number has no entry at any index: the empty list). Either
  call may throw; a throw of the read \<^verbatim>\<open>probabilities[1]\<close> itself, on a result that is
  \<^verbatim>\<open>undefined\<close>, is caught by the same \<^verbatim>\<open>catch\<close> and counts as one of the call.
\<close>

record classifier =
  predict :: "feature list \<Rightarrow> exn + jsnum"
  predictProbability :: "feature list \<Rightarrow> exn + jsnum list"

text \<open>An index read past the end of an array is \<^verbatim>\<open>undefined\<close>, which is falsy.\<close>

definition index :: "jsnum list \<Rightarrow> nat \<Rightarrow> jsnum option" where
  "index xs i = (if i < length xs then Some (xs ! i) else None)"

definition heuristic :: "jsnum \<Rightarrow> jsnum" where
  \<comment> \<open>\<^verbatim>\<open>prediction === 1 ? 0.85 : 0.15\<close>\<close>
  "heuristic prediction = (if prediction = Fin 1 then Fin (85 / 100) else Fin (15 / 100))"

definition floodProb :: "classifier \<Rightarrow> feature list \<Rightarrow> jsnum \<Rightarrow> jsnum" where
  "floodProb rf v prediction =
     (case predictProbability rf v of
        Inl e \<Rightarrow> heuristic prediction
      | Inr probabilities \<Rightarrow>
          (case index probabilities 1 of
             None \<Rightarrow> Fin 0
           | Some p \<Rightarrow> num_or p (Fin 0)))"

fun js_gt :: "jsnum \<Rightarrow> jsnum \<Rightarrow> bool" where
  "js_gt NaN y = False"
| "js_gt x NaN = False"
| "js_gt NegInf y = False"
| "js_gt x PosInf = False"
| "js_gt PosInf y = True"
| "js_gt x NegInf = True"
| "js_gt (Fin a) (Fin b) = (a > b)"

fun js_le :: "jsnum \<Rightarrow> jsnum \<Rightarrow> bool" where
  "js_le NaN y = False"
| "js_le x NaN = False"
| "js_le NegInf y = True"
| "js_le x PosInf = True"
| "js_le PosInf y = False"
| "js_le x NegInf = False"
| "js_le (Fin a) (Fin b) = (a \<le> b)"

fun js_times :: "jsnum \<Rightarrow> jsnum \<Rightarrow> jsnum" where
  "js_times (Fin a) (Fin b) = Fin (a * b)"
| "js_times NaN y = NaN"
| "js_times x NaN = NaN"
| "js_times (Fin a) y = (if a = 0 then NaN else if a > 0 then y else negate y)"
| "js_times x (Fin b) = (if b = 0 then NaN else if b > 0 then x else negate x)"
| "js_times x y = (if x = y then PosInf else NegInf)"

fun js_plus :: "jsnum \<Rightarrow> jsnum \<Rightarrow> jsnum" where
  "js_plus (Fin a) (Fin b) = Fin (a + b)"
| "js_plus NaN y = NaN"
| "js_plus x NaN = NaN"
| "js_plus (Fin a) y = y"
| "js_plus x (Fin b) = x"
| "js_plus x y = (if x = y then x else NaN)"

definition riskLevel :: "jsnum \<Rightarrow> string" where
  "riskLevel p =
     (if js_gt p (Fin (7 / 10)) then ''High''
      else if js_gt p (Fin (4 / 10)) then ''Medium''
      else ''Low'')"

text \<open>
  \<^verbatim>\<open>Number.prototype.toFixed\<close> (ECMAScript 21.1.3.3) with \<open>f\<close> fraction digits: a number
  that is not finite, or whose magnitude is at least \<open>10^21\<close>, is printed by
  \<^verbatim>\<open>Number::toString\<close>; any other as the integer nearest to \<open>x * 10^f\<close> (the larger
  one at a tie), padded with zeros to \<open>f + 1\<close> digits, with a point before the last
  \<open>f\<close>.
\<close>

fun decimal :: "nat \<Rightarrow> string" where
  "decimal n =
     (if n < 10 then [''0123456789'' ! n]
      else decimal (n div 10) @ [''0123456789'' ! (n mod 10)])"

declare decimal.simps [simp del]

definition fixed_digits :: "nat \<Rightarrow> nat \<Rightarrow> string" where
  "fixed_digits f n =
     (let m = replicate (Suc f - length (decimal n)) (CHR ''0'') @ decimal n;
          k = length m
      in if f = 0 then m else take (k - f) m @ ''.'' @ drop (k - f) m)"

definition minus_sign :: "real \<Rightarrow> string" where
  "minus_sign x = (if x < 0 then ''-'' else [])"

fun toFixed :: "nat \<Rightarrow> jsnum \<Rightarrow> jstext" where
  "toFixed f (Fin x) =
     (if 10 ^ 21 \<le> \<bar>x\<bar> then lit (minus_sign x) @ [NumText (Fin \<bar>x\<bar>)]
      else lit (minus_sign x @ fixed_digits f (nat \<lfloor>\<bar>x\<bar> * 10 ^ f + 1 / 2\<rfloor>)))"
| "toFixed f x = [NumText x]"

text \<open>
  A response: the status and the JSON sent, either the endpoint's data or
  \<^verbatim>\<open>{ error: ... }\<close>. \<open>PredictionResult\<close> holds \<^verbatim>\<open>prediction\<close>, \<^verbatim>\<open>probability\<close> and
  \<^verbatim>\<open>riskLevel\<close>, in this order.
\<close>

datatype 'a json_body = Data 'a | Error string

record 'a response =
  status :: nat
  json :: "'a json_body"

datatype prediction_result = PredictionResult string jstext string

text \<open>
  The handler of \<^verbatim>\<open>POST /api/predict\<close>. An exception before the inner \<^verbatim>\<open>try\<close> (from
  building \<^verbatim>\<open>input\<close>, or from \<^verbatim>\<open>rf.predict\<close>) reaches the outer \<^verbatim>\<open>catch\<close>, which
  answers 500.
  The product \<^verbatim>\<open>floodProb * 100\<close> is exact here; the code rounds it to binary64, which
  can move the last digit that \<^verbatim>\<open>toFixed(2)\<close> prints. The label and the risk level do
  not depend on it.
\<close>

definition predict_handler :: "classifier \<Rightarrow> predict_body \<Rightarrow> prediction_result response" where
  "predict_handler rf body =
     (case input body of
        Inl e \<Rightarrow> \<lparr>status = 500, json = Error ''Failed to process prediction''\<rparr>
      | Inr v \<Rightarrow>
          (case predict rf v of
             Inl e \<Rightarrow> \<lparr>status = 500, json = Error ''Failed to process prediction''\<rparr>
           | Inr prediction \<Rightarrow>
               \<lparr>status = 200,
                json = Data (PredictionResult
                  (if prediction = Fin 1 then ''Flood Likely'' else ''No Flood Expected'')
                  (toFixed 2 (js_times (floodProb rf v prediction) (Fin 100)))
                  (riskLevel (floodProb rf v prediction)))\<rparr>))"

section \<open>The environmental-data endpoint\<close>

text \<open>
  What one of the two \<^verbatim>\<open>try\<close> blocks around an upstream call sees: \<open>Rejected\<close> when
  \<^verbatim>\<open>fetch\<close> throws (a network error; building the URL from a coordinate that has no
  text throws there too), otherwise \<open>Responded ok data\<close> with the response's \<^verbatim>\<open>ok\<close>
  flag and its body as parsed by \<^verbatim>\<open>.json()\<close>, \<open>None\<close> when that throws.
\<close>

datatype fetched = Rejected | Responded bool "jsval option"

definition nullish :: "jsval \<Rightarrow> bool" where
  "nullish v = (v = JUndefined \<or> v = JNull)"

text \<open>
  Property reads on upstream data. \<open>get_named\<close> is \<^verbatim>\<open>v.name\<close> for the names read here
  (\<^verbatim>\<open>daily\<close>, \<^verbatim>\<open>precipitation_sum\<close>, \<^verbatim>\<open>results\<close>, \<^verbatim>\<open>elevation\<close>), which no built-in
  prototype defines; \<open>get_first\<close> is \<^verbatim>\<open>v[0]\<close>. A read on \<^verbatim>\<open>undefined\<close> or \<^verbatim>\<open>null\<close>
  throws; \<^verbatim>\<open>?.\<close> returns \<^verbatim>\<open>undefined\<close> for the rest of the chain instead.
\<close>

definition own :: "(string \<times> jsval) list \<Rightarrow> string \<Rightarrow> jsval" where
  "own ps name = (case map_of ps name of None \<Rightarrow> JUndefined | Some x \<Rightarrow> x)"

fun get_named :: "string \<Rightarrow> jsval \<Rightarrow> exn + jsval" where
  "get_named name JUndefined = Inl TypeError"
| "get_named name JNull = Inl TypeError"
| "get_named name (JObject ps) = Inr (own ps name)"
| "get_named name v = Inr JUndefined"

fun get_first :: "jsval \<Rightarrow> exn + jsval" where
  "get_first JUndefined = Inl TypeError"
| "get_first JNull = Inl TypeError"
| "get_first (JArray xs) = Inr (case xs of [] \<Rightarrow> JUndefined | x # _ \<Rightarrow> x)"
| "get_first (JString s) = Inr (case s of [] \<Rightarrow> JUndefined | c # _ \<Rightarrow> JString [c])"
| "get_first (JObject ps) = Inr (own ps ''0'')"
| "get_first v = Inr JUndefined"

definition precipitation :: "jsval \<Rightarrow> exn + jsval" where
  \<comment> \<open>\<^verbatim>\<open>weatherData.daily?.precipitation_sum?.[0]\<close>\<close>
  "precipitation weatherData =
     (case get_named ''daily'' weatherData of
        Inl e \<Rightarrow> Inl e
      | Inr daily \<Rightarrow>
          if nullish daily then Inr JUndefined
          else
            (case get_named ''precipitation_sum'' daily of
               Inl e \<Rightarrow> Inl e
             | Inr amounts \<Rightarrow> if nullish amounts then Inr JUndefined else get_first amounts))"

definition elevation :: "jsval \<Rightarrow> exn + jsval" where
  \<comment> \<open>\<^verbatim>\<open>elevationData.results?.[0]?.elevation\<close>\<close>
  "elevation elevationData =
     (case get_named ''results'' elevationData of
        Inl e \<Rightarrow> Inl e
      | Inr results \<Rightarrow>
          if nullish results then Inr JUndefined
          else
            (case get_first results of
               Inl e \<Rightarrow> Inl e
             | Inr r \<Rightarrow> if nullish r then Inr JUndefined else get_named ''elevation'' r))"

text \<open>
  One upstream block: the variable starts at 0 and is assigned
  \<^verbatim>\<open>read(data) || 0\<close> only when the call answered with \<^verbatim>\<open>ok\<close> and a JSON body and the
  read did not throw.
\<close>

definition upstream :: "(jsval \<Rightarrow> exn + jsval) \<Rightarrow> fetched \<Rightarrow> jsval" where
  "upstream read f =
     (case f of
        Rejected \<Rightarrow> JNumber (Fin 0)
      | Responded ok body \<Rightarrow>
          if \<not> ok then JNumber (Fin 0)
          else
            (case body of
               None \<Rightarrow> JNumber (Fin 0)
             | Some data \<Rightarrow>
                 (case read data of
                    Inl e \<Rightarrow> JNumber (Fin 0)
                  | Inr v \<Rightarrow> js_or v (JNumber (Fin 0)))))"

datatype environmental_data = EnvironmentalData jstext jstext jstext jstext

text \<open>
  The handler of \<^verbatim>\<open>GET /api/environmental-data\<close>; \<open>EnvironmentalData\<close> holds
  \<^verbatim>\<open>rainfall\<close>, \<^verbatim>\<open>altitude\<close>, \<^verbatim>\<open>areaElevation\<close> and \<^verbatim>\<open>roadElevation\<close>. \<open>random1\<close> and
  \<open>random2\<close> are the two results of \<^verbatim>\<open>Math.random()\<close>, each in \<open>[0, 1)\<close>.

  Only a number has a \<^verbatim>\<open>toFixed\<close> method: when the rainfall or the altitude taken from
  upstream is a truthy value of another kind (a string, \<^verbatim>\<open>true\<close>, an array, an object),
  building the response throws a TypeError, at the latest at the call
  \<^verbatim>\<open>.toFixed(1)\<close> on it, and the outer \<^verbatim>\<open>catch\<close> answers 500.
\<close>

definition environmental_data_handler ::
  "jsval \<Rightarrow> jsval \<Rightarrow> fetched \<Rightarrow> fetched \<Rightarrow> real \<Rightarrow> real \<Rightarrow> environmental_data response" where
  "environmental_data_handler lat lng weather elevations random1 random2 =
     (if \<not> truthy lat \<or> \<not> truthy lng then
        \<lparr>status = 400, json = Error ''Latitude and longitude are required''\<rparr>
      else
        (case (upstream precipitation weather, upstream elevation elevations) of
           (JNumber rain, JNumber alt) \<Rightarrow>
             \<lparr>status = 200,
              json = Data (EnvironmentalData
                (toFixed 1 rain)
                (toFixed 1 alt)
                (toFixed 1 (js_plus alt (Fin (random1 * 2 - 1))))
                (toFixed 1 (js_plus alt (Fin (random2 * (1 / 2) - 1 / 4)))))\<rparr>
         | _ \<Rightarrow> \<lparr>status = 500, json = Error ''Failed to fetch environmental data''\<rparr>))"

section \<open>The training data\<close>

text \<open>
  \<^verbatim>\<open>trainingData\<close> alternates a feature vector and a label pair; \<^verbatim>\<open>X\<close> takes the
  entries at even positions, \<^verbatim>\<open>y\<close> the first component of those at odd positions.
\<close>

definition trainingData :: "real list list" where
  "trainingData =
     [[50, 100, 50, 52, 3], [0, 0],
      [200, 5, 2, 1, 1], [1, 1],
      [150, 10, 5, 4, 1], [1, 1],
      [20, 200, 150, 152, 3], [0, 0],
      [300, 2, 1, 1, 1], [1, 1],
      [80, 50, 20, 22, 2], [0, 0],
      [120, 15, 8, 7, 2], [0, 1],
      [180, 8, 4, 3, 1], [1, 1],
      [40, 120, 80, 82, 3], [0, 0],
      [250, 5, 3, 2, 1], [1, 1],
      [60, 40, 15, 16, 2], [0, 0],
      [220, 12, 6, 5, 1], [1, 1],
      [10, 300, 250, 252, 3], [0, 0],
      [100, 20, 10, 11, 2], [0, 0],
      [140, 18, 9, 8, 1], [0, 1]]"

fun at_even :: "'a list \<Rightarrow> 'a list" and at_odd :: "'a list \<Rightarrow> 'a list" where
  "at_even [] = []"
| "at_even (x # xs) = x # at_odd xs"
| "at_odd [] = []"
| "at_odd (x # xs) = at_even xs"

definition X :: "real list list" where
  "X = at_even trainingData"

definition y :: "real list" where
  "y = map hd (at_odd trainingData)"

section \<open>Texts that begin with a number\<close>

text \<open>
  What it means for a text to begin with a decimal number: after an optional sign comes
  \<^verbatim>\<open>Infinity\<close>, or a digit, or a point and a digit. For the text of a value, leading
  white space is skipped first; the text of a number begins with a number unless the
  number is \<open>NaN\<close>.
\<close>

definition begins_with_number :: "string \<Rightarrow> bool" where
  "begins_with_number s =
     (let u = (if s \<noteq> [] \<and> (hd s = CHR ''-'' \<or> hd s = CHR ''+'') then tl s else s)
      in take 8 u = ''Infinity'' \<or> (u \<noteq> [] \<and> is_digit (hd u))
         \<or> (2 \<le> length u \<and> hd u = CHR ''.'' \<and> is_digit (u ! 1)))"

definition text_begins_with_number :: "jstext \<Rightarrow> bool" where
  "text_begins_with_number t =
     (case dropWhile is_space_tchar t of
        NumText n # _ \<Rightarrow> n \<noteq> NaN
      | u \<Rightarrow> begins_with_number (leading_chars u))"

section \<open>Shape of a formatted number\<close>

text \<open>
  A text with one decimal place: an optional minus sign, one or more digits, a point,
  one digit.
\<close>

definition one_decimal_string :: "string \<Rightarrow> bool" where
  "one_decimal_string s =
     (let u = (if s \<noteq> [] \<and> hd s = CHR ''-'' then tl s else s)
      in 3 \<le> length u \<and> list_all is_digit (take (length u - 2) u)
         \<and> u ! (length u - 2) = CHR ''.'' \<and> is_digit (last u))"

definition one_decimal :: "jstext \<Rightarrow> bool" where
  "one_decimal t = (case chars t of None \<Rightarrow> False | Some s \<Rightarrow> one_decimal_string s)"

fun below_1e21 :: "jsnum \<Rightarrow> bool" where
  "below_1e21 (Fin x) = (\<bar>x\<bar> < 10 ^ 21)"
| "below_1e21 x = False"

section \<open>Sample requests and classifiers\<close>

text \<open>
  Two requests: the one of the specification's example, and one whose numeric fields
  hold a word, \<^verbatim>\<open>null\<close>, nothing, and a number. Three classifiers that answer the
  same for every vector: one with a two-class estimate, one whose probability call
  throws (a library version without \<^verbatim>\<open>predictProbability\<close>: calling \<^verbatim>\<open>undefined\<close> is a
  TypeError), and one that answers as the library's
  \<^verbatim>\<open>predictProbability(toPredict, label)\<close> does, with one number for each row, so that
  \<^verbatim>\<open>rf.predictProbability([input])[0]\<close> is a plain number. Two upstream answers of the
  shape the handler reads.
\<close>

definition example_body :: predict_body where
  "example_body =
     \<lparr>rainfall = JString ''200'', altitude = JString ''5'', areaElevation = JString ''2'',
      roadElevation = JString ''1'', drainageSystem = JString ''Fair''\<rparr>"

definition two_class_rf :: classifier where
  "two_class_rf =
     \<lparr>predict = (\<lambda>v. Inr (Fin 1)),
      predictProbability = (\<lambda>v. Inr [Fin (1 / 10), Fin (9 / 10)])\<rparr>"

definition throwing_rf :: classifier where
  "throwing_rf =
     \<lparr>predict = (\<lambda>v. Inr (Fin 1)), predictProbability = (\<lambda>v. Inl TypeError)\<rparr>"

definition plain_number_rf :: classifier where
  "plain_number_rf =
     \<lparr>predict = (\<lambda>v. Inr (Fin 1)), predictProbability = (\<lambda>v. Inr [])\<rparr>"

definition elevation_response :: "jsval \<Rightarrow> fetched" where
  \<comment> \<open>an upstream answer \<^verbatim>\<open>{"results": [{"elevation": e}]}\<close>\<close>
  "elevation_response e =
     Responded True (Some (JObject [(''results'', JArray [JObject [(''elevation'', e)]])]))"

definition words_body :: predict_body where
  "words_body =
     \<lparr>rainfall = JString ''heavy'', altitude = JNull, areaElevation = JUndefined,
      roadElevation = JString ''7.5'', drainageSystem = JString ''Good''\<rparr>"

definition weather_response :: "jsval \<Rightarrow> fetched" where
  \<comment> \<open>an upstream answer \<^verbatim>\<open>{"daily": {"precipitation_sum": [p]}}\<close>\<close>
  "weather_response p =
     Responded True
       (Some (JObject [(''daily'', JObject [(''precipitation_sum'', JArray [p])])]))"

section \<open>Evaluation on the sample inputs\<close>

lemma binary64_range_zero: "binary64_range 0 = Fin 0"
  by (simp add: binary64_range_def)

lemma binary64_range_exact:
  assumes "1 / 2 ^ 53 \<le> x" and "x \<le> 2 ^ 53"
  shows "binary64_range x = Fin x"
proof -
  have "(2::real) ^ 53 < 2 ^ 1024 - 2 ^ 970"
  proof -
    have "(2::real) ^ 1024 = 2 ^ 54 * 2 ^ 970"
      by (simp add: power_add [symmetric])
    then have "(2::real) ^ 1024 - 2 ^ 970 = (2 ^ 54 - 1) * 2 ^ 970"
      by (simp add: algebra_simps)
    moreover have "(2::real) ^ 53 * 1 < (2 ^ 54 - 1) * 2 ^ 970"
      by (intro mult_less_le_imp_less) simp_all
    ultimately show ?thesis by simp
  qed
  moreover have "(1::real) / 2 ^ 1075 < 1 / 2 ^ 53"
    by (simp add: field_simps)
  ultimately show ?thesis
    using assms unfolding binary64_range_def by auto
qed

lemmas parse_defs0 =
  parseFloat_def parse_text_def lit_def StrDecimalLiteral_def StrUnsignedDecimalLiteral_def
  is_digit_def digits_value_def digit_value_def ExponentPart_def scale10_def is_space_def

lemmas parse_defs = parse_defs0 binary64_range_exact binary64_range_zero

lemmas drainage_defs =
  drainageValue_def get_property_def drainageSystemMap_def Object_prototype_def lit_def

lemmas fixed_defs = fixed_digits_def decimal.simps minus_sign_def lit_def

lemma number_or_zero_200: "number_or_zero (JString ''200'') = Inr (Num (Fin 200))"
  by (simp add: number_or_zero_def num_or_def parse_defs)

lemma number_or_zero_5: "number_or_zero (JString ''5'') = Inr (Num (Fin 5))"
  by (simp add: number_or_zero_def num_or_def parse_defs)

lemma number_or_zero_2: "number_or_zero (JString ''2'') = Inr (Num (Fin 2))"
  by (simp add: number_or_zero_def num_or_def parse_defs)

lemma number_or_zero_1: "number_or_zero (JString ''1'') = Inr (Num (Fin 1))"
  by (simp add: number_or_zero_def num_or_def parse_defs)

text \<open>Outside the binary64 range a decimal text reads as an infinity or as zero.\<close>

lemma parseFloat_overflow: "parseFloat (JString ''1e400'') = Inr PosInf"
proof -
  have "(2::real) ^ 1024 - 2 ^ 970 \<le> 2 ^ 1024" by simp
  also have "(2::real) ^ 1024 \<le> 2 ^ 1200" by (rule power_increasing) simp_all
  also have "(2::real) ^ 1200 = 8 ^ 400" by (simp add: power_mult [symmetric, of 2 3 400, simplified])
  also have "(8::real) ^ 400 \<le> 10 ^ 400" by (rule power_mono) simp_all
  finally have "binary64_range (10 ^ 400) = PosInf"
    by (simp add: binary64_range_def)
  then show ?thesis by (simp add: parse_defs0)
qed

lemma parseFloat_underflow: "parseFloat (JString ''1e-400'') = Inr (Fin 0)"
proof -
  have "(2::real) ^ 1075 \<le> 2 ^ 1200" by (rule power_increasing) simp_all
  also have "(2::real) ^ 1200 = 8 ^ 400" by (simp add: power_mult [symmetric, of 2 3 400, simplified])
  also have "(8::real) ^ 400 \<le> 10 ^ 400" by (rule power_mono) simp_all
  finally have "(1::real) / 10 ^ 400 \<le> 1 / 2 ^ 1075"
    by (simp add: frac_le)
  then have "binary64_range (1 / 10 ^ 400) = Fin 0"
    by (simp add: binary64_range_def)
  then show ?thesis by (simp add: parse_defs0)
qed

text \<open>A no-break space before the digits is skipped as white space.\<close>

lemma parseFloat_no_break_space:
  "parseFloat (JString [CHR 0xA0, CHR ''4'', CHR ''2'']) = Inr (Fin 42)"
  by (simp add: parse_defs)

lemma drainageValue_Fair: "drainageValue (JString ''Fair'') = Inr (Num (Fin 1))"
  by (simp add: drainage_defs)

lemma input_example:
  "input example_body = Inr [Num (Fin 200), Num (Fin 5), Num (Fin 2), Num (Fin 1), Num (Fin 1)]"
  by (simp add: input_def example_body_def number_or_zero_200 number_or_zero_5
      number_or_zero_2 number_or_zero_1 drainageValue_Fair)

lemma example_is_training_sample:
  "input example_body = Inr (map (\<lambda>x. Num (Fin x)) (X ! 1)) \<and> y ! 1 = 1"
  by (simp add: input_example X_def y_def trainingData_def)

section \<open>The risk level\<close>

lemma floodProb_not_NaN: "floodProb rf v prediction \<noteq> NaN"
  by (auto simp: floodProb_def heuristic_def num_or_def split: sum.splits option.splits)

lemma riskLevel_cases:
  assumes "p \<noteq> NaN"
  shows "(js_gt p (Fin (7 / 10)) \<longrightarrow> riskLevel p = ''High'')
    \<and> (js_gt p (Fin (4 / 10)) \<and> js_le p (Fin (7 / 10)) \<longrightarrow> riskLevel p = ''Medium'')
    \<and> (js_le p (Fin (4 / 10)) \<longrightarrow> riskLevel p = ''Low'')
    \<and> (js_gt p (Fin (7 / 10)) \<or> js_gt p (Fin (4 / 10)) \<and> js_le p (Fin (7 / 10))
        \<or> js_le p (Fin (4 / 10)))"
  using assms by (cases p) (auto simp: riskLevel_def)

text \<open>
  C1. Whenever the prediction endpoint answers with a result, the \<^verbatim>\<open>riskLevel\<close> it
  returns is fixed by the flood probability \<open>p\<close> computed for the request: \<open>High\<close>
  when \<open>p > 0.7\<close>, \<open>Medium\<close> when \<open>0.4 < p \<le> 0.7\<close>, \<open>Low\<close> when \<open>p \<le> 0.4\<close>. The
  probability is never \<open>NaN\<close>, so one of the three cases always applies.
\<close>

theorem riskLevel_thresholds:
  assumes "predict_handler rf body = \<lparr>status = 200, json = Data (PredictionResult label prob risk)\<rparr>"
  shows "\<exists>v prediction p.
      input body = Inr v \<and> predict rf v = Inr prediction \<and> p = floodProb rf v prediction
      \<and> p \<noteq> NaN
      \<and> (js_gt p (Fin (7 / 10)) \<longrightarrow> risk = ''High'')
      \<and> (js_gt p (Fin (4 / 10)) \<and> js_le p (Fin (7 / 10)) \<longrightarrow> risk = ''Medium'')
      \<and> (js_le p (Fin (4 / 10)) \<longrightarrow> risk = ''Low'')
      \<and> (js_gt p (Fin (7 / 10)) \<or> js_gt p (Fin (4 / 10)) \<and> js_le p (Fin (7 / 10))
          \<or> js_le p (Fin (4 / 10)))"
proof -
  from assms obtain v prediction where v: "input body = Inr v"
    and pr: "predict rf v = Inr prediction"
    and risk: "risk = riskLevel (floodProb rf v prediction)"
    by (auto simp: predict_handler_def split: sum.splits)
  show ?thesis
    using v pr risk riskLevel_cases [OF floodProb_not_NaN, of rf v prediction]
    by (intro exI [of _ v] exI [of _ prediction] exI [of _ "floodProb rf v prediction"])
       (simp add: floodProb_not_NaN)
qed

lemma floodProb_two_class: "floodProb two_class_rf v p = Fin (9 / 10)"
  by (simp add: floodProb_def two_class_rf_def index_def num_or_def)

lemma predict_two_class: "predict two_class_rf v = Inr (Fin 1)"
  by (simp add: two_class_rf_def)

lemma handler_two_class:
  "predict_handler two_class_rf example_body =
     \<lparr>status = 200, json = Data (PredictionResult ''Flood Likely'' (lit ''90.00'') ''High'')\<rparr>"
  by (simp add: predict_handler_def input_example predict_two_class floodProb_two_class
      riskLevel_def fixed_defs)

theorem riskLevel_thresholds_witness:
  "predict_handler two_class_rf example_body =
     \<lparr>status = 200, json = Data (PredictionResult ''Flood Likely'' (lit ''90.00'') ''High'')\<rparr>
   \<and> (\<exists>v prediction p.
      input example_body = Inr v \<and> predict two_class_rf v = Inr prediction
      \<and> p = floodProb two_class_rf v prediction \<and> p \<noteq> NaN
      \<and> (js_gt p (Fin (7 / 10)) \<longrightarrow> ''High'' = ''High'')
      \<and> (js_gt p (Fin (4 / 10)) \<and> js_le p (Fin (7 / 10)) \<longrightarrow> ''High'' = ''Medium'')
      \<and> (js_le p (Fin (4 / 10)) \<longrightarrow> ''High'' = ''Low'')
      \<and> (js_gt p (Fin (7 / 10)) \<or> js_gt p (Fin (4 / 10)) \<and> js_le p (Fin (7 / 10))
          \<or> js_le p (Fin (4 / 10))))"
  using riskLevel_thresholds [OF handler_two_class] handler_two_class by blast

section \<open>The heuristic fallback\<close>

lemma floodProb_fallback:
  "predictProbability rf v = Inl e \<Longrightarrow> floodProb rf v prediction = heuristic prediction"
  by (simp add: floodProb_def)

lemma riskLevel_heuristic:
  "riskLevel (heuristic prediction) = (if prediction = Fin 1 then ''High'' else ''Low'')"
  by (simp add: riskLevel_def heuristic_def)

text \<open>
  C9. When the probability call throws, so that the endpoint falls back to the
  heuristic probability (0.85 for label 1, 0.15 otherwise), the returned \<^verbatim>\<open>riskLevel\<close>
  is \<open>High\<close> exactly when the returned \<^verbatim>\<open>prediction\<close> is \<open>Flood Likely\<close>, and \<open>Low\<close>
  otherwise; it is never \<open>Medium\<close>.
\<close>

theorem fallback_riskLevel:
  assumes "predict_handler rf body =
             \<lparr>status = 200, json = Data (PredictionResult label prob risk)\<rparr>"
    and "input body = Inr v"
    and "predictProbability rf v = Inl e"
  shows "(\<exists>prediction. predict rf v = Inr prediction
            \<and> floodProb rf v prediction = heuristic prediction
            \<and> (heuristic prediction = Fin (85 / 100) \<or> heuristic prediction = Fin (15 / 100)))
    \<and> (risk = ''High'' \<longleftrightarrow> label = ''Flood Likely'')
    \<and> (label \<noteq> ''Flood Likely'' \<longrightarrow> risk = ''Low'')
    \<and> risk \<noteq> ''Medium''"
proof -
  from assms(1,2) obtain prediction where pr: "predict rf v = Inr prediction"
    and label: "label = (if prediction = Fin 1 then ''Flood Likely'' else ''No Flood Expected'')"
    and risk: "risk = riskLevel (floodProb rf v prediction)"
    by (auto simp: predict_handler_def split: sum.splits)
  have fp: "floodProb rf v prediction = heuristic prediction"
    using assms(3) by (rule floodProb_fallback)
  have "heuristic prediction = Fin (85 / 100) \<or> heuristic prediction = Fin (15 / 100)"
    by (simp add: heuristic_def)
  with pr fp label risk show ?thesis
    by (auto simp: riskLevel_heuristic)
qed

lemma predict_throwing: "predict throwing_rf v = Inr (Fin 1)"
  by (simp add: throwing_rf_def)

lemma predictProbability_throwing: "predictProbability throwing_rf v = Inl TypeError"
  by (simp add: throwing_rf_def)

lemma handler_throwing:
  "predict_handler throwing_rf example_body =
     \<lparr>status = 200, json = Data (PredictionResult ''Flood Likely'' (lit ''85.00'') ''High'')\<rparr>"
  by (simp add: predict_handler_def input_example predict_throwing
      floodProb_fallback [OF predictProbability_throwing] riskLevel_def heuristic_def
      fixed_defs)

theorem fallback_riskLevel_witness:
  "predict_handler throwing_rf example_body =
     \<lparr>status = 200, json = Data (PredictionResult ''Flood Likely'' (lit ''85.00'') ''High'')\<rparr>
   \<and> input example_body = Inr [Num (Fin 200), Num (Fin 5), Num (Fin 2), Num (Fin 1), Num (Fin 1)]
   \<and> predictProbability throwing_rf
        [Num (Fin 200), Num (Fin 5), Num (Fin 2), Num (Fin 1), Num (Fin 1)] = Inl TypeError
   \<and> (''High'' = ''High'' \<longleftrightarrow> ''Flood Likely'' = ''Flood Likely'')
   \<and> ''High'' \<noteq> ''Medium''"
  using fallback_riskLevel [OF handler_throwing input_example predictProbability_throwing]
    handler_throwing input_example predictProbability_throwing
  by simp

section \<open>The feature vector\<close>

lemma number_or_zero_cases:
  assumes "number_or_zero x = Inr f"
  shows "\<exists>p n. parseFloat x = Inr p \<and> f = Num n \<and> n \<noteq> NaN
           \<and> (p = NaN \<longrightarrow> n = Fin 0) \<and> (truthy_num p \<longrightarrow> n = p)"
  using assms
  by (cases "parseFloat x") (auto simp: number_or_zero_def num_or_def)

lemma input_entries:
  assumes "input body = Inr v"
  shows "\<exists>r a ae re d. v = [r, a, ae, re, d]
      \<and> number_or_zero (rainfall body) = Inr r \<and> number_or_zero (altitude body) = Inr a
      \<and> number_or_zero (areaElevation body) = Inr ae
      \<and> number_or_zero (roadElevation body) = Inr re
      \<and> drainageValue (drainageSystem body) = Inr d"
proof -
  obtain d where d: "drainageValue (drainageSystem body) = Inr d"
    using assms by (cases "drainageValue (drainageSystem body)") (simp_all add: input_def)
  obtain r where r: "number_or_zero (rainfall body) = Inr r"
    using assms d by (cases "number_or_zero (rainfall body)") (simp_all add: input_def)
  obtain a where a: "number_or_zero (altitude body) = Inr a"
    using assms d r by (cases "number_or_zero (altitude body)") (simp_all add: input_def)
  obtain ae where ae: "number_or_zero (areaElevation body) = Inr ae"
    using assms d r a by (cases "number_or_zero (areaElevation body)") (simp_all add: input_def)
  obtain re where re: "number_or_zero (roadElevation body) = Inr re"
    using assms d r a ae by (cases "number_or_zero (roadElevation body)") (simp_all add: input_def)
  from assms d r a ae re have "v = [r, a, ae, re, d]"
    by (simp add: input_def)
  with d r a ae re show ?thesis by blast
qed

text \<open>
  C10. Whenever a feature vector is built for the classifier, it has five entries and
  each of the first four is a number other than \<open>NaN\<close>: the \<^verbatim>\<open>parseFloat\<close> of the field,
  replaced by 0 when that is \<open>NaN\<close>.
\<close>

theorem input_numbers_not_NaN:
  assumes "input body = Inr v"
  shows "length v = 5
    \<and> (\<forall>i<4. \<exists>n. v ! i = Num n \<and> n \<noteq> NaN)
    \<and> (parseFloat (rainfall body) = Inr NaN \<longrightarrow> v ! 0 = Num (Fin 0))
    \<and> (parseFloat (altitude body) = Inr NaN \<longrightarrow> v ! 1 = Num (Fin 0))
    \<and> (parseFloat (areaElevation body) = Inr NaN \<longrightarrow> v ! 2 = Num (Fin 0))
    \<and> (parseFloat (roadElevation body) = Inr NaN \<longrightarrow> v ! 3 = Num (Fin 0))"
proof -
  from input_entries [OF assms] obtain r a ae re d where v: "v = [r, a, ae, re, d]"
    and r: "number_or_zero (rainfall body) = Inr r"
    and a: "number_or_zero (altitude body) = Inr a"
    and ae: "number_or_zero (areaElevation body) = Inr ae"
    and re: "number_or_zero (roadElevation body) = Inr re"
    by blast
  note cs = number_or_zero_cases [OF r] number_or_zero_cases [OF a]
    number_or_zero_cases [OF ae] number_or_zero_cases [OF re]
  from cs(1) obtain n0 where n0: "r = Num n0" "n0 \<noteq> NaN" by blast
  from cs(2) obtain n1 where n1: "a = Num n1" "n1 \<noteq> NaN" by blast
  from cs(3) obtain n2 where n2: "ae = Num n2" "n2 \<noteq> NaN" by blast
  from cs(4) obtain n3 where n3: "re = Num n3" "n3 \<noteq> NaN" by blast
  have "\<exists>n. v ! i = Num n \<and> n \<noteq> NaN" if "i < 4" for i
  proof -
    from that consider "i = 0" | "i = 1" | "i = 2" | "i = 3" by linarith
    then show ?thesis
    proof cases
      case 1 then show ?thesis using v n0 by simp
    next
      case 2 then show ?thesis using v n1 by simp
    next
      case 3 then show ?thesis using v n2 by simp
    next
      case 4 then show ?thesis using v n3 by simp
    qed
  qed
  moreover have "length v = 5" using v by simp
  moreover have "parseFloat (rainfall body) = Inr NaN \<longrightarrow> v ! 0 = Num (Fin 0)"
    using cs(1) v by fastforce
  moreover have "parseFloat (altitude body) = Inr NaN \<longrightarrow> v ! 1 = Num (Fin 0)"
    using cs(2) v by fastforce
  moreover have "parseFloat (areaElevation body) = Inr NaN \<longrightarrow> v ! 2 = Num (Fin 0)"
    using cs(3) v by fastforce
  moreover have "parseFloat (roadElevation body) = Inr NaN \<longrightarrow> v ! 3 = Num (Fin 0)"
    using cs(4) v by fastforce
  ultimately show ?thesis by blast
qed

lemma parseFloat_heavy: "parseFloat (JString ''heavy'') = Inr NaN"
  by (simp add: parse_defs)

lemma parseFloat_null: "parseFloat JNull = Inr NaN"
  by (simp add: parse_defs)

lemma parseFloat_undefined: "parseFloat JUndefined = Inr NaN"
  by (simp add: parse_defs)

lemma parseFloat_7_5: "parseFloat (JString ''7.5'') = Inr (Fin (15 / 2))"
  by (simp add: parse_defs)

lemma drainageValue_Good: "drainageValue (JString ''Good'') = Inr (Num (Fin 2))"
  by (simp add: drainage_defs)

lemma input_words:
  "input words_body = Inr [Num (Fin 0), Num (Fin 0), Num (Fin 0), Num (Fin (15 / 2)), Num (Fin 2)]"
  by (simp add: input_def words_body_def number_or_zero_def num_or_def parseFloat_heavy
      parseFloat_null parseFloat_undefined parseFloat_7_5 drainageValue_Good)

theorem input_numbers_not_NaN_witness:
  "input words_body = Inr [Num (Fin 0), Num (Fin 0), Num (Fin 0), Num (Fin (15 / 2)), Num (Fin 2)]
   \<and> length [Num (Fin 0), Num (Fin 0), Num (Fin 0), Num (Fin (15 / 2)), Num (Fin 2)] = 5
   \<and> parseFloat (rainfall words_body) = Inr NaN
   \<and> [Num (Fin 0), Num (Fin 0), Num (Fin 0), Num (Fin (15 / 2)), Num (Fin 2)] ! 0 = Num (Fin 0)
   \<and> (\<exists>n. [Num (Fin 0), Num (Fin 0), Num (Fin 0), Num (Fin (15 / 2)), Num (Fin 2)] ! 3
          = Num n \<and> n \<noteq> NaN)"
  using input_numbers_not_NaN [OF input_words] input_words parseFloat_heavy
  by (simp add: words_body_def)

section \<open>Missing coordinates\<close>

text \<open>
  C4. A request to the environmental-data endpoint in which \<^verbatim>\<open>lat\<close> or \<^verbatim>\<open>lng\<close> is
  missing is answered with status 400 and an error body, whatever the upstream
  services would have said.
\<close>

theorem missing_coordinate_400:
  assumes "lat = JUndefined \<or> lng = JUndefined"
  shows "environmental_data_handler lat lng weather elevations random1 random2 =
           \<lparr>status = 400, json = Error ''Latitude and longitude are required''\<rparr>"
  using assms by (auto simp: environmental_data_handler_def)

theorem missing_coordinate_400_witness:
  "(JString ''27.7'' = JUndefined \<or> JUndefined = JUndefined)
   \<and> environmental_data_handler (JString ''27.7'') JUndefined Rejected Rejected 0 0 =
        \<lparr>status = 400, json = Error ''Latitude and longitude are required''\<rparr>"
  using missing_coordinate_400 [of "JString ''27.7''" JUndefined Rejected Rejected 0 0]
  by simp

section \<open>The drainage code\<close>

lemma chars_lit: "chars (lit s) = Some s"
  by (induction s) (simp_all add: lit_def)

text \<open>
  Where the default works: a string that is none of the three names and names no member
  of \<^verbatim>\<open>Object.prototype\<close>, and a missing value, get code 2.
\<close>

lemma other_string_is_Good:
  assumes "s \<notin> {''Fair'', ''Good'', ''Very Good''} \<union> set Object_prototype"
  shows "drainageValue (JString s) = Inr (Num (Fin 2))"
  using assms
  by (simp add: drainageValue_def get_property_def drainageSystemMap_def chars_lit)

lemma missing_is_Good: "drainageValue JUndefined = Inr (Num (Fin 2))"
  by (simp add: drainage_defs)

text \<open>
  Where it does not: each of the twelve names of \<^verbatim>\<open>Object.prototype\<close> reads the inherited
  member, which is truthy, so \<^verbatim>\<open>|| 2\<close> does not apply.
\<close>

lemma inherited_name_is_not_Good:
  assumes "s \<in> set Object_prototype"
  shows "drainageValue (JString s) = Inr (Inherited s)"
proof -
  have "map_of drainageSystemMap s = None"
    using assms by (auto simp: drainageSystemMap_def Object_prototype_def)
  then show ?thesis
    using assms by (simp add: drainageValue_def get_property_def chars_lit)
qed

lemma drainageValue_constructor:
  "drainageValue (JString ''constructor'') = Inr (Inherited ''constructor'')"
  by (rule inherited_name_is_not_Good) (simp add: Object_prototype_def)

text \<open>
  C2. The claim asks for drainage code 2 for every value that is not one of the three
  strings. The code breaks it on the request
  \<^verbatim>\<open>{"rainfall":"200","altitude":"5","areaElevation":"2","roadElevation":"1","drainageSystem":"constructor"}\<close>:
  the string \<^verbatim>\<open>constructor\<close> is not one of the three, yet the fifth entry of the vector
  is the member inherited from \<^verbatim>\<open>Object.prototype\<close>, not the number 2.
\<close>

theorem inherited_member_in_input:
  "input (example_body\<lparr>drainageSystem := JString ''constructor''\<rparr>) =
     Inr [Num (Fin 200), Num (Fin 5), Num (Fin 2), Num (Fin 1), Inherited ''constructor'']
   \<and> Inherited ''constructor'' \<noteq> Num (Fin 2)
   \<and> ''constructor'' \<notin> {''Fair'', ''Good'', ''Very Good''}"
  by (simp add: input_def example_body_def number_or_zero_200 number_or_zero_5
      number_or_zero_2 number_or_zero_1 drainageValue_constructor)

section \<open>Values that are not numbers\<close>

lemma number_or_zero_12abc: "number_or_zero (JString ''12abc'') = Inr (Num (Fin 12))"
  by (simp add: number_or_zero_def num_or_def parse_defs)

lemma number_or_zero_no_text: "number_or_zero (JObject [(''toString'', JNull)]) = Inl TypeError"
  by (simp add: number_or_zero_def parseFloat_def)

lemma takeWhile_is_digit_Nil: "takeWhile is_digit u = [] \<longleftrightarrow> u = [] \<or> \<not> is_digit (hd u)"
  by (cases u) simp_all

lemma binary64_range_not_NaN: "binary64_range x \<noteq> NaN"
  by (simp add: binary64_range_def)

lemma negate_NaN: "negate x = NaN \<longleftrightarrow> x = NaN"
  by (cases x) simp_all

lemma StrUnsignedDecimalLiteral_NaN:
  "StrUnsignedDecimalLiteral u = NaN \<longleftrightarrow>
     \<not> (take 8 u = ''Infinity'' \<or> (u \<noteq> [] \<and> is_digit (hd u))
        \<or> (2 \<le> length u \<and> hd u = CHR ''.'' \<and> is_digit (u ! 1)))"
proof (cases "take 8 u = ''Infinity''")
  case True
  then show ?thesis by (simp add: StrUnsignedDecimalLiteral_def)
next
  case inf: False
  show ?thesis
  proof (cases "takeWhile is_digit u = []")
    case False
    then have "u \<noteq> [] \<and> is_digit (hd u)"
      by (simp add: takeWhile_is_digit_Nil)
    with False inf show ?thesis
      by (simp add: StrUnsignedDecimalLiteral_def Let_def binary64_range_not_NaN)
  next
    case True
    then have nd: "u = [] \<or> \<not> is_digit (hd u)"
      by (simp add: takeWhile_is_digit_Nil)
    then have drop: "dropWhile is_digit u = u"
      by (cases u) auto
    have point: "(2 \<le> length u \<and> hd u = CHR ''.'' \<and> is_digit (u ! 1)) \<longleftrightarrow>
        (u \<noteq> [] \<and> hd u = CHR ''.'' \<and> takeWhile is_digit (tl u) \<noteq> [])"
    proof (cases u)
      case Nil
      then show ?thesis by simp
    next
      case (Cons c r)
      then show ?thesis by (cases r) auto
    qed
    show ?thesis
      using True inf nd drop point
      by (auto simp: StrUnsignedDecimalLiteral_def Let_def binary64_range_not_NaN)
  qed
qed

lemma StrDecimalLiteral_NaN: "StrDecimalLiteral s = NaN \<longleftrightarrow> \<not> begins_with_number s"
proof (cases s)
  case Nil
  then show ?thesis by (simp add: StrDecimalLiteral_def begins_with_number_def)
next
  case (Cons c r)
  then show ?thesis
    using StrUnsignedDecimalLiteral_NaN [of r] StrUnsignedDecimalLiteral_NaN [of s]
    by (simp add: StrDecimalLiteral_def begins_with_number_def negate_NaN)
qed

lemma parse_text_NaN: "parse_text t = NaN \<longleftrightarrow> \<not> text_begins_with_number t"
proof -
  define u where "u = dropWhile is_space_tchar t"
  have "(case u of NumText n # _ \<Rightarrow> n | v \<Rightarrow> StrDecimalLiteral (leading_chars v)) = NaN
      \<longleftrightarrow> \<not> (case u of NumText n # _ \<Rightarrow> n \<noteq> NaN | v \<Rightarrow> begins_with_number (leading_chars v))"
  proof (cases u)
    case Nil
    then show ?thesis by (simp add: StrDecimalLiteral_NaN)
  next
    case (Cons x w)
    then show ?thesis by (cases x) (simp_all add: StrDecimalLiteral_NaN)
  qed
  then show ?thesis
    unfolding parse_text_def text_begins_with_number_def u_def .
qed

lemma dropWhile_space_lit: "dropWhile is_space_tchar (lit s) = lit (dropWhile is_space s)"
  by (induction s) (simp_all add: lit_def)

lemma leading_chars_lit: "leading_chars (lit s) = s"
  by (induction s) (simp_all add: lit_def)

lemma text_begins_with_number_lit:
  "text_begins_with_number (lit s) = begins_with_number (dropWhile is_space s)"
proof -
  have "text_begins_with_number (lit u) = begins_with_number u"
    if "dropWhile is_space_tchar (lit u) = lit u" for u
    using that leading_chars_lit [of u]
    by (cases u) (simp_all add: text_begins_with_number_def lit_def)
  moreover have "dropWhile is_space_tchar (lit (dropWhile is_space s)) = lit (dropWhile is_space s)"
    by (simp add: dropWhile_space_lit)
  moreover have "text_begins_with_number (lit s) = text_begins_with_number (lit (dropWhile is_space s))"
    by (simp add: text_begins_with_number_def dropWhile_space_lit)
  ultimately show ?thesis by simp
qed

lemma no_number_gives_zero:
  assumes "ToString x = Inr t" and "\<not> text_begins_with_number t"
  shows "parseFloat x = Inr NaN" and "number_or_zero x = Inr (Num (Fin 0))"
proof -
  show "parseFloat x = Inr NaN"
    using assms parse_text_NaN [of t] by (simp add: parseFloat_def)
  then show "number_or_zero x = Inr (Num (Fin 0))"
    by (simp add: number_or_zero_def num_or_def)
qed

lemma no_text_throws:
  assumes "ToString x = Inl e"
  shows "number_or_zero x = Inl e"
  using assms by (simp add: number_or_zero_def parseFloat_def)

lemma input_throws:
  assumes "number_or_zero x = Inl e"
    and "x = rainfall body \<or> x = altitude body \<or> x = areaElevation body \<or> x = roadElevation body"
  shows "\<exists>e'. input body = Inl e'"
proof (cases "input body")
  case (Inl e')
  then show ?thesis by blast
next
  case (Inr v)
  from input_entries [OF Inr] assms show ?thesis by auto
qed

lemma no_text_is_500:
  assumes "ToString x = Inl e"
    and "x = rainfall body \<or> x = altitude body \<or> x = areaElevation body \<or> x = roadElevation body"
  shows "predict_handler rf body = \<lparr>status = 500, json = Error ''Failed to process prediction''\<rparr>"
proof -
  from input_throws [OF no_text_throws [OF assms(1)] assms(2)]
  obtain e' where "input body = Inl e'" by blast
  then show ?thesis by (simp add: predict_handler_def)
qed


lemma digits_prefix:
  assumes "ds \<noteq> []" and "list_all is_digit ds"
    and "0 < digits_value ds" and "digits_value ds \<le> 2 ^ 53"
    and "r = [] \<or> hd r \<notin> set ''0123456789.eE''"
  shows "number_or_zero (JString (ds @ r)) = Inr (Num (Fin (real (digits_value ds))))"
proof -
  have hd: "is_digit (hd ds)"
    using assms(1,2) by (cases ds) auto
  have stop: "r = [] \<or> (\<not> is_digit (hd r) \<and> hd r \<noteq> CHR ''.'' \<and> hd r \<noteq> CHR ''e''
      \<and> hd r \<noteq> CHR ''E'')"
    using assms(5) by (auto simp: is_digit_def)
  have all: "\<And>c. c \<in> set ds \<Longrightarrow> is_digit c"
    using assms(2) by (simp add: list_all_iff)
  have tw: "takeWhile is_digit (ds @ r) = ds"
    using all stop by (cases r) (auto simp: takeWhile_append2)
  have dw: "dropWhile is_digit (ds @ r) = r"
    using all stop by (cases r) (auto simp: dropWhile_append2)
  have inf: "take 8 (ds @ r) \<noteq> ''Infinity''"
  proof
    assume "take 8 (ds @ r) = ''Infinity''"
    then have "hd (take 8 (ds @ r)) = CHR ''I''" by simp
    then have "hd ds = CHR ''I''"
      using assms(1) by (cases ds) simp_all
    with hd show False by (simp add: is_digit_def)
  qed
  have ex: "ExponentPart r = 0"
    using stop by (cases r) (auto simp: ExponentPart_def)
  have range: "binary64_range (real (digits_value ds)) = Fin (real (digits_value ds))"
  proof (rule binary64_range_exact)
    have "(1::real) / 2 ^ 53 \<le> 1" by simp
    also have "1 \<le> real (digits_value ds)" using assms(3) by simp
    finally show "1 / 2 ^ 53 \<le> real (digits_value ds)" .
    have "real (digits_value ds) \<le> real (2 ^ 53)"
      using assms(4) by (rule iffD2 [OF of_nat_le_iff])
    then show "real (digits_value ds) \<le> 2 ^ 53" by simp
  qed
  have nil: "digits_value [] = 0"
    by (simp add: digits_value_def)
  have un: "StrUnsignedDecimalLiteral (ds @ r) = Fin (real (digits_value ds))"
    using tw dw inf stop ex range assms(1)
    by (auto simp: StrUnsignedDecimalLiteral_def Let_def scale10_def nil)
  have sign: "hd ds \<noteq> CHR ''-''" "hd ds \<noteq> CHR ''+''" "\<not> is_space (hd ds)"
    using hd by (auto simp: is_digit_def is_space_def)
  have lit: "StrDecimalLiteral (ds @ r) = Fin (real (digits_value ds))"
    using un sign assms(1) by (cases ds) (simp_all add: StrDecimalLiteral_def)
  have "parse_text (lit (ds @ r)) = StrDecimalLiteral (ds @ r)"
    using sign(3) assms(1) leading_chars_lit [of "ds @ r"]
    by (cases ds) (simp_all add: parse_text_def lit_def)
  with lit have "parseFloat (JString (ds @ r)) = Inr (Fin (real (digits_value ds)))"
    by (simp add: parseFloat_def)
  then show ?thesis
    using assms(3) by (simp add: number_or_zero_def num_or_def)
qed

lemma own_toString_no_text:
  "''toString'' \<in> fst ` set ps \<Longrightarrow> ToString (JObject ps) = Inl TypeError"
  by simp

text \<open>
  C3, as stated, fails: the text \<^verbatim>\<open>12abc\<close> is not a number, yet \<^verbatim>\<open>parseFloat\<close> reads its
  prefix and the vector gets 12, not 0; and an object with an own \<^verbatim>\<open>toString\<close>
  property has no text, so \<^verbatim>\<open>parseFloat\<close> throws and the endpoint answers 500.
\<close>

theorem non_numeric_field_counterexample:
  "input (example_body\<lparr>rainfall := JString ''12abc''\<rparr>) =
     Inr [Num (Fin 12), Num (Fin 5), Num (Fin 2), Num (Fin 1), Num (Fin 1)]
   \<and> predict_handler two_class_rf
        (example_body\<lparr>rainfall := JObject [(''toString'', JNull)]\<rparr>) =
      \<lparr>status = 500, json = Error ''Failed to process prediction''\<rparr>"
  by (simp add: predict_handler_def input_def example_body_def number_or_zero_12abc
      number_or_zero_no_text number_or_zero_5 number_or_zero_2 number_or_zero_1
      drainageValue_Fair)

text \<open>
  C3, amended. A value that has a text which, after leading white space, does not begin
  with a decimal number (a word, an empty string, \<^verbatim>\<open>null\<close>, \<^verbatim>\<open>true\<close>, a missing field)
  is coerced to 0 without an error, in whichever of the four numeric fields it stands:
  every vector built from the body has 0 at that field's position. A text that begins
  with digits writing a number from 1 to \<open>2^53\<close>, followed by nothing or by a character
  that is not a digit, a point or an exponent letter (as \<^verbatim>\<open>12abc\<close>), is coerced to that
  number. A value with no text in one of the four fields, as an object with an own
  \<^verbatim>\<open>toString\<close> property is, makes the endpoint answer 500.
\<close>

theorem text_without_number_is_zero:
  "(\<forall>x t. ToString x = Inr t \<and> \<not> text_begins_with_number t \<longrightarrow>
      parseFloat x = Inr NaN \<and> number_or_zero x = Inr (Num (Fin 0)))
   \<and> (\<forall>s. \<not> begins_with_number (dropWhile is_space s) \<longrightarrow>
         number_or_zero (JString s) = Inr (Num (Fin 0)))
   \<and> (\<forall>body v x t. input body = Inr v \<and> ToString x = Inr t \<and> \<not> text_begins_with_number t
         \<longrightarrow> (rainfall body = x \<longrightarrow> v ! 0 = Num (Fin 0))
           \<and> (altitude body = x \<longrightarrow> v ! 1 = Num (Fin 0))
           \<and> (areaElevation body = x \<longrightarrow> v ! 2 = Num (Fin 0))
           \<and> (roadElevation body = x \<longrightarrow> v ! 3 = Num (Fin 0)))
   \<and> (\<forall>ds r. ds \<noteq> [] \<and> list_all is_digit ds \<and> 0 < digits_value ds
         \<and> digits_value ds \<le> 2 ^ 53 \<and> (r = [] \<or> hd r \<notin> set ''0123456789.eE'')
         \<longrightarrow> number_or_zero (JString (ds @ r)) = Inr (Num (Fin (real (digits_value ds)))))
   \<and> (\<forall>x e rf body. ToString x = Inl e
         \<and> (x = rainfall body \<or> x = altitude body \<or> x = areaElevation body
             \<or> x = roadElevation body)
         \<longrightarrow> predict_handler rf body =
               \<lparr>status = 500, json = Error ''Failed to process prediction''\<rparr>)
   \<and> (\<forall>ps. ''toString'' \<in> fst ` set ps \<longrightarrow> ToString (JObject ps) = Inl TypeError)"
proof -
  have a: "parseFloat x = Inr NaN \<and> number_or_zero x = Inr (Num (Fin 0))"
    if "ToString x = Inr t \<and> \<not> text_begins_with_number t" for x t
    using that no_number_gives_zero [of x t] by blast
  have b: "number_or_zero (JString s) = Inr (Num (Fin 0))"
    if "\<not> begins_with_number (dropWhile is_space s)" for s
    using that no_number_gives_zero(2) [of "JString s" "lit s"]
    by (simp add: text_begins_with_number_lit)
  have c: "(rainfall body = x \<longrightarrow> v ! 0 = Num (Fin 0))
           \<and> (altitude body = x \<longrightarrow> v ! 1 = Num (Fin 0))
           \<and> (areaElevation body = x \<longrightarrow> v ! 2 = Num (Fin 0))
           \<and> (roadElevation body = x \<longrightarrow> v ! 3 = Num (Fin 0))"
    if "input body = Inr v \<and> ToString x = Inr t \<and> \<not> text_begins_with_number t"
    for body v x t
  proof -
    from that have z: "number_or_zero x = Inr (Num (Fin 0))"
      using no_number_gives_zero(2) by blast
    from that have "input body = Inr v" by blast
    from input_entries [OF this] z show ?thesis by auto
  qed
  have d: "number_or_zero (JString (ds @ r)) = Inr (Num (Fin (real (digits_value ds))))"
    if "ds \<noteq> [] \<and> list_all is_digit ds \<and> 0 < digits_value ds
         \<and> digits_value ds \<le> 2 ^ 53 \<and> (r = [] \<or> hd r \<notin> set ''0123456789.eE'')" for ds r
    using that digits_prefix [of ds r] by blast
  have e: "predict_handler rf body = \<lparr>status = 500, json = Error ''Failed to process prediction''\<rparr>"
    if "ToString x = Inl e
         \<and> (x = rainfall body \<or> x = altitude body \<or> x = areaElevation body
             \<or> x = roadElevation body)" for x e rf body
    using that no_text_is_500 [of x e body rf] by blast
  have f: "ToString (JObject ps) = Inl TypeError" if "''toString'' \<in> fst ` set ps" for ps
    using that by (rule own_toString_no_text)
  from a b c d e f show ?thesis by blast
qed


lemma heavy_has_no_number: "\<not> text_begins_with_number (lit ''heavy'')"
  by (simp add: text_begins_with_number_lit begins_with_number_def is_space_def is_digit_def)

lemma digits_12: "list_all is_digit ''12'' \<and> digits_value ''12'' = 12"
  by (simp add: is_digit_def digits_value_def digit_value_def)

theorem text_without_number_is_zero_witness:
  "ToString (JString ''heavy'') = Inr (lit ''heavy'')
   \<and> \<not> text_begins_with_number (lit ''heavy'')
   \<and> number_or_zero (JString ''heavy'') = Inr (Num (Fin 0))
   \<and> input words_body =
        Inr [Num (Fin 0), Num (Fin 0), Num (Fin 0), Num (Fin (15 / 2)), Num (Fin 2)]
   \<and> rainfall words_body = JString ''heavy''
   \<and> [Num (Fin 0), Num (Fin 0), Num (Fin 0), Num (Fin (15 / 2)), Num (Fin 2)] ! 0 = Num (Fin 0)
   \<and> list_all is_digit ''12'' \<and> digits_value ''12'' = 12
   \<and> number_or_zero (JString (''12'' @ ''abc'')) = Inr (Num (Fin 12))
   \<and> ToString (JObject [(''toString'', JNull)]) = Inl TypeError
   \<and> predict_handler two_class_rf
        (example_body\<lparr>rainfall := JObject [(''toString'', JNull)]\<rparr>) =
      \<lparr>status = 500, json = Error ''Failed to process prediction''\<rparr>"
proof -
  note T = text_without_number_is_zero
  note T1 = T [THEN conjunct1, rule_format]
  note T4 = T [THEN conjunct2, THEN conjunct2, THEN conjunct2, THEN conjunct1, rule_format]
  note T5 = T [THEN conjunct2, THEN conjunct2, THEN conjunct2, THEN conjunct2, THEN conjunct1,
    rule_format]
  have t: "ToString (JString ''heavy'') = Inr (lit ''heavy'')"
    by simp
  have zero: "number_or_zero (JString ''heavy'') = Inr (Num (Fin 0))"
    using T1 [of "JString ''heavy''" "lit ''heavy''"] t heavy_has_no_number by simp
  have r: "rainfall words_body = JString ''heavy''"
    by (simp add: words_body_def)
  have prefix: "number_or_zero (JString (''12'' @ ''abc'')) = Inr (Num (Fin 12))"
    using T4 [of "''12''" "''abc''"] digits_12 by simp
  have n: "ToString (JObject [(''toString'', JNull)]) = Inl TypeError"
    by simp
  have fail: "predict_handler two_class_rf
        (example_body\<lparr>rainfall := JObject [(''toString'', JNull)]\<rparr>) =
      \<lparr>status = 500, json = Error ''Failed to process prediction''\<rparr>"
    using T5 [of "JObject [(''toString'', JNull)]" TypeError
        "example_body\<lparr>rainfall := JObject [(''toString'', JNull)]\<rparr>" two_class_rf] n
    by simp
  from t heavy_has_no_number zero input_words r digits_12 prefix n fail
  show ?thesis by simp
qed

section \<open>The classifier's estimate\<close>

text \<open>
  An estimate with no entry at index 1 gives the probability 0, whatever the label.
\<close>

lemma floodProb_no_entry:
  assumes "predictProbability rf v = Inr ps" and "index ps 1 = None"
  shows "floodProb rf v prediction = Fin 0"
  using assms by (simp add: floodProb_def)

lemma toFixed_product_zero: "toFixed 2 (Fin 0) = lit ''0.00''"
  by (simp add: fixed_defs)

lemma riskLevel_zero: "riskLevel (Fin 0) = ''Low''"
  by (simp add: riskLevel_def)

lemma no_entry_is_Low:
  assumes "input body = Inr v" and "predict rf v = Inr prediction"
    and "predictProbability rf v = Inr ps" and "index ps 1 = None"
  shows "predict_handler rf body =
     \<lparr>status = 200,
      json = Data (PredictionResult
        (if prediction = Fin 1 then ''Flood Likely'' else ''No Flood Expected'')
        (lit ''0.00'') ''Low'')\<rparr>"
  using assms(1,2) floodProb_no_entry [OF assms(3,4)]
  by (simp add: predict_handler_def toFixed_product_zero riskLevel_zero del: toFixed.simps)

lemma predict_plain_number: "predict plain_number_rf v = Inr (Fin 1)"
  by (simp add: plain_number_rf_def)

lemma predictProbability_plain_number: "predictProbability plain_number_rf v = Inr []"
  by (simp add: plain_number_rf_def)

text \<open>
  C6. The claim asks for the classifier's flood-class estimate as the probability, or
  for the heuristic 0.85 or 0.15 where the classifier gives none. The code breaks it
  when \<^verbatim>\<open>rf.predictProbability([input])[0]\<close> is a plain number, which has no entry at
  index 1: for the request of the specification's example and the label 1 the
  probability is neither an estimate nor the heuristic 0.85 but 0, and the endpoint
  returns \<open>Flood Likely\<close> with probability \<^verbatim>\<open>0.00\<close> and risk \<open>Low\<close>.
\<close>

theorem plain_number_estimate_is_zero:
  "input example_body = Inr [Num (Fin 200), Num (Fin 5), Num (Fin 2), Num (Fin 1), Num (Fin 1)]
   \<and> predict plain_number_rf
        [Num (Fin 200), Num (Fin 5), Num (Fin 2), Num (Fin 1), Num (Fin 1)] = Inr (Fin 1)
   \<and> predictProbability plain_number_rf
        [Num (Fin 200), Num (Fin 5), Num (Fin 2), Num (Fin 1), Num (Fin 1)] = Inr []
   \<and> index [] 1 = None
   \<and> floodProb plain_number_rf
        [Num (Fin 200), Num (Fin 5), Num (Fin 2), Num (Fin 1), Num (Fin 1)] (Fin 1) = Fin 0
   \<and> heuristic (Fin 1) = Fin (85 / 100)
   \<and> predict_handler plain_number_rf example_body =
       \<lparr>status = 200, json = Data (PredictionResult ''Flood Likely'' (lit ''0.00'') ''Low'')\<rparr>"
proof -
  have i: "index [] 1 = None"
    by (simp add: index_def)
  have "predict_handler plain_number_rf example_body =
       \<lparr>status = 200, json = Data (PredictionResult ''Flood Likely'' (lit ''0.00'') ''Low'')\<rparr>"
    using no_entry_is_Low [OF input_example predict_plain_number
        predictProbability_plain_number i]
    by simp
  then show ?thesis
    using i floodProb_no_entry [OF predictProbability_plain_number i]
    by (simp add: input_example predict_plain_number predictProbability_plain_number
        heuristic_def)
qed

section \<open>Upstream failures\<close>

lemma upstream_failed:
  assumes "f = Rejected \<or> (\<exists>data. f = Responded False data)"
  shows "upstream read f = JNumber (Fin 0)"
  using assms by (auto simp: upstream_def)

lemma toFixed_zero: "toFixed 1 (Fin 0) = lit ''0.0''"
  by (simp add: fixed_defs)

lemma elevation_of_response: "upstream elevation (elevation_response e) = js_or e (JNumber (Fin 0))"
  by (cases e) (simp_all add: upstream_def elevation_response_def elevation_def own_def
      nullish_def js_or_def)

text \<open>
  C5, as stated, fails: with both coordinates given and the weather call rejected, an
  elevation service that answers \<^verbatim>\<open>{"results": [{"elevation": "high"}]}\<close> makes the
  endpoint answer 500, since the text \<^verbatim>\<open>high\<close> is truthy and has no \<^verbatim>\<open>toFixed\<close>.
\<close>

theorem weather_failure_counterexample:
  "environmental_data_handler (JString ''27.7'') (JString ''85.3'') Rejected
     (elevation_response (JString ''high'')) (1 / 2) (1 / 2) =
   \<lparr>status = 500, json = Error ''Failed to fetch environmental data''\<rparr>"
  by (simp add: environmental_data_handler_def elevation_of_response js_or_def
      upstream_failed)

text \<open>
  C5, amended. For every request with both coordinates given and not empty, if the
  weather call fails (it is rejected, or answers without success), then: when the
  altitude taken from the elevation call is a number (as it is when that call fails
  too, the altitude then being 0) the endpoint answers 200 and the rainfall field is
  \<^verbatim>\<open>0.0\<close>; when it is not a number the endpoint answers 500.
\<close>

theorem weather_failure_absorbed:
  assumes "truthy lat" and "truthy lng"
    and "weather = Rejected \<or> (\<exists>data. weather = Responded False data)"
  shows "(\<forall>alt. upstream elevation elevations = JNumber alt \<longrightarrow>
            (\<exists>a ae re. environmental_data_handler lat lng weather elevations random1 random2 =
               \<lparr>status = 200, json = Data (EnvironmentalData (lit ''0.0'') a ae re)\<rparr>))
    \<and> (elevations = Rejected \<or> (\<exists>data. elevations = Responded False data) \<longrightarrow>
          upstream elevation elevations = JNumber (Fin 0))
    \<and> ((\<forall>alt. upstream elevation elevations \<noteq> JNumber alt) \<longrightarrow>
          environmental_data_handler lat lng weather elevations random1 random2 =
            \<lparr>status = 500, json = Error ''Failed to fetch environmental data''\<rparr>)"
proof -
  have rain: "upstream precipitation weather = JNumber (Fin 0)"
    using assms(3) by (rule upstream_failed)
  have "\<exists>a ae re. environmental_data_handler lat lng weather elevations random1 random2 =
               \<lparr>status = 200, json = Data (EnvironmentalData (lit ''0.0'') a ae re)\<rparr>"
    if "upstream elevation elevations = JNumber alt" for alt
    using that assms(1,2) rain
    by (simp add: environmental_data_handler_def toFixed_zero del: toFixed.simps One_nat_def)
  moreover have "environmental_data_handler lat lng weather elevations random1 random2 =
            \<lparr>status = 500, json = Error ''Failed to fetch environmental data''\<rparr>"
    if "\<forall>alt. upstream elevation elevations \<noteq> JNumber alt"
    using that assms(1,2) rain
    by (cases "upstream elevation elevations") (simp_all add: environmental_data_handler_def)
  moreover have "elevations = Rejected \<or> (\<exists>data. elevations = Responded False data) \<longrightarrow>
          upstream elevation elevations = JNumber (Fin 0)"
    using upstream_failed by blast
  ultimately show ?thesis by blast
qed

theorem weather_failure_absorbed_witness:
  "truthy (JString ''27.7'') \<and> truthy (JString ''85.3'')
   \<and> (Responded False None = Rejected \<or> (\<exists>data. Responded False None = Responded False data))
   \<and> upstream elevation Rejected = JNumber (Fin 0)
   \<and> (\<exists>a ae re. environmental_data_handler (JString ''27.7'') (JString ''85.3'')
          (Responded False None) Rejected (1 / 2) (1 / 2) =
        \<lparr>status = 200, json = Data (EnvironmentalData (lit ''0.0'') a ae re)\<rparr>)"
proof -
  have lat: "truthy (JString ''27.7'')" and lng: "truthy (JString ''85.3'')" by simp_all
  have w: "Responded False None = Rejected \<or> (\<exists>data. Responded False None = Responded False data)"
    by simp
  have e: "upstream elevation Rejected = JNumber (Fin 0)"
    by (simp add: upstream_def)
  from weather_failure_absorbed [OF lat lng w, of Rejected "1 / 2" "1 / 2"] e lat lng w
  show ?thesis by blast
qed

section \<open>The environmental data\<close>

lemma precipitation_of_response:
  "upstream precipitation (weather_response p) = js_or p (JNumber (Fin 0))"
  by (cases p) (simp_all add: upstream_def weather_response_def precipitation_def own_def
      nullish_def js_or_def)

lemma is_digit_nth: "k < 10 \<Longrightarrow> is_digit (''0123456789'' ! k)"
proof -
  assume "k < 10"
  then have "k \<in> {0, 1, 2, 3, 4, 5, 6, 7, 8, 9}" by auto
  then show ?thesis by (auto simp: is_digit_def)
qed

lemma decimal_digits: "decimal n \<noteq> [] \<and> list_all is_digit (decimal n)"
proof (induction n rule: decimal.induct)
  case (1 n)
  show ?case
  proof (cases "n < 10")
    case True
    then show ?thesis by (simp add: decimal.simps [of n] is_digit_nth)
  next
    case False
    with "1" show ?thesis by (simp add: decimal.simps [of n] is_digit_nth)
  qed
qed

lemma fixed_digits_one:
  "\<exists>ds c. fixed_digits 1 n = ds @ [CHR ''.'', c] \<and> ds \<noteq> [] \<and> list_all is_digit ds \<and> is_digit c"
proof -
  define m where "m = replicate (Suc 1 - length (decimal n)) (CHR ''0'') @ decimal n"
  have zero: "is_digit (CHR ''0'')"
    by (simp add: is_digit_def)
  have digits: "list_all is_digit m"
    using decimal_digits [of n] zero by (auto simp: m_def list_all_iff)
  have len: "2 \<le> length m"
    by (simp add: m_def)
  then obtain ds c where m: "m = ds @ [c]"
    by (cases m rule: rev_cases) auto
  have "fixed_digits 1 n =
      (if (1::nat) = 0 then m else take (length m - 1) m @ ''.'' @ drop (length m - 1) m)"
    unfolding fixed_digits_def Let_def m_def ..
  then have "fixed_digits 1 n = ds @ [CHR ''.'', c]"
    by (simp add: m)
  moreover have "ds \<noteq> []"
    using len m by auto
  moreover have "list_all is_digit ds" "is_digit c"
    using digits m by simp_all
  ultimately show ?thesis by blast
qed

lemma one_decimal_string_digits:
  assumes "ds \<noteq> []" and "list_all is_digit ds" and "is_digit c"
  shows "one_decimal_string (ds @ [CHR ''.'', c])"
    and "one_decimal_string (CHR ''-'' # ds @ [CHR ''.'', c])"
proof -
  have "is_digit (hd ds)" using assms(1,2) by (cases ds) auto
  then have "hd ds \<noteq> CHR ''-''" by (auto simp: is_digit_def)
  then have hd: "hd (ds @ [CHR ''.'', c]) \<noteq> CHR ''-''" using assms(1) by simp
  have shape: "3 \<le> length (ds @ [CHR ''.'', c])
      \<and> list_all is_digit (take (length (ds @ [CHR ''.'', c]) - 2) (ds @ [CHR ''.'', c]))
      \<and> (ds @ [CHR ''.'', c]) ! (length (ds @ [CHR ''.'', c]) - 2) = CHR ''.''
      \<and> is_digit (last (ds @ [CHR ''.'', c]))"
    using assms by (cases ds) (auto simp: nth_append)
  show "one_decimal_string (ds @ [CHR ''.'', c])"
    using hd shape by (simp add: one_decimal_string_def Let_def)
  show "one_decimal_string (CHR ''-'' # ds @ [CHR ''.'', c])"
    using shape by (simp add: one_decimal_string_def Let_def)
qed

lemma one_decimal_toFixed:
  assumes "below_1e21 x"
  shows "one_decimal (toFixed 1 x)"
proof -
  from assms obtain r where x: "x = Fin r" and r: "\<bar>r\<bar> < 10 ^ 21"
    by (cases x) auto
  obtain ds c where fd: "fixed_digits 1 (nat \<lfloor>\<bar>r\<bar> * 10 ^ 1 + 1 / 2\<rfloor>) = ds @ [CHR ''.'', c]"
    and ds: "ds \<noteq> []" "list_all is_digit ds" and c: "is_digit c"
    using fixed_digits_one by blast
  have "toFixed 1 x = lit (minus_sign r @ ds @ [CHR ''.'', c])"
    using x r fd by simp
  then show ?thesis
    using one_decimal_string_digits [OF ds c]
    by (simp add: one_decimal_def chars_lit minus_sign_def del: toFixed.simps)
qed

text \<open>
  C7, as stated, fails: for an altitude of \<open>10^21\<close> metres \<^verbatim>\<open>toFixed(1)\<close> prints the
  number in exponent notation (\<^verbatim>\<open>1e+21\<close>), which has no decimal place.
\<close>

theorem one_decimal_counterexample:
  "environmental_data_handler (JString ''27.7'') (JString ''85.3'') Rejected
     (elevation_response (JNumber (Fin (10 ^ 21)))) (1 / 2) (1 / 2) =
   \<lparr>status = 200,
    json = Data (EnvironmentalData (lit ''0.0'') [NumText (Fin (10 ^ 21))]
      [NumText (Fin (10 ^ 21))] [NumText (Fin (10 ^ 21))])\<rparr>
   \<and> \<not> one_decimal [NumText (Fin (10 ^ 21))]"
  by (simp add: environmental_data_handler_def elevation_of_response js_or_def upstream_failed
      one_decimal_def fixed_defs)

text \<open>
  C7, amended. In every successful response, with \<open>alt\<close> the altitude taken from
  upstream: \<^verbatim>\<open>altitude\<close> is \<open>alt\<close>, \<^verbatim>\<open>areaElevation\<close> is \<open>alt\<close> plus a jitter in
  \<open>[-1, 1)\<close> and \<^verbatim>\<open>roadElevation\<close> is \<open>alt\<close> plus a jitter in \<open>[-0.25, 0.25)\<close>, each
  printed by \<^verbatim>\<open>toFixed(1)\<close>, as is the rainfall; and each of the four texts has one
  decimal place when the number printed is finite and below \<open>10^21\<close> in magnitude.
\<close>

theorem environmental_data_shape:
  assumes "0 \<le> random1" and "random1 < 1" and "0 \<le> random2" and "random2 < 1"
    and "environmental_data_handler lat lng weather elevations random1 random2 =
           \<lparr>status = 200, json = Data (EnvironmentalData r a ae re)\<rparr>"
  shows "\<exists>rain alt j1 j2.
      upstream precipitation weather = JNumber rain
      \<and> upstream elevation elevations = JNumber alt
      \<and> - 1 \<le> j1 \<and> j1 < 1 \<and> - (1 / 4) \<le> j2 \<and> j2 < 1 / 4
      \<and> r = toFixed 1 rain \<and> a = toFixed 1 alt
      \<and> ae = toFixed 1 (js_plus alt (Fin j1)) \<and> re = toFixed 1 (js_plus alt (Fin j2))
      \<and> (below_1e21 rain \<longrightarrow> one_decimal r)
      \<and> (below_1e21 alt \<longrightarrow> one_decimal a)
      \<and> (below_1e21 (js_plus alt (Fin j1)) \<longrightarrow> one_decimal ae)
      \<and> (below_1e21 (js_plus alt (Fin j2)) \<longrightarrow> one_decimal re)"
proof -
  from assms(5) obtain rain alt where rain: "upstream precipitation weather = JNumber rain"
    and alt: "upstream elevation elevations = JNumber alt"
    and r: "r = toFixed 1 rain" and a: "a = toFixed 1 alt"
    and ae: "ae = toFixed 1 (js_plus alt (Fin (random1 * 2 - 1)))"
    and re: "re = toFixed 1 (js_plus alt (Fin (random2 * (1 / 2) - 1 / 4)))"
    by (auto simp: environmental_data_handler_def split: if_splits jsval.splits
        simp del: toFixed.simps)
  have j1: "- 1 \<le> random1 * 2 - 1" "random1 * 2 - 1 < 1"
    using assms(1,2) by simp_all
  have j2: "- (1 / 4) \<le> random2 * (1 / 2) - 1 / 4" "random2 * (1 / 2) - 1 / 4 < 1 / 4"
    using assms(3,4) by simp_all
  show ?thesis
    using rain alt r a ae re j1 j2 one_decimal_toFixed
    by (intro exI [of _ rain] exI [of _ alt] exI [of _ "random1 * 2 - 1"]
        exI [of _ "random2 * (1 / 2) - 1 / 4"]) (simp del: toFixed.simps)
qed

lemma handler_kathmandu:
  "environmental_data_handler (JString ''27.7'') (JString ''85.3'')
     (weather_response (JNumber (Fin (123 / 10)))) (elevation_response (JNumber (Fin 1400)))
     (1 / 4) (3 / 4) =
   \<lparr>status = 200,
    json = Data (EnvironmentalData (lit ''12.3'') (lit ''1400.0'') (lit ''1399.5'')
      (lit ''1400.1''))\<rparr>"
  by (simp add: environmental_data_handler_def elevation_of_response precipitation_of_response
      js_or_def fixed_defs)

theorem environmental_data_shape_witness:
  "(0::real) \<le> 1 / 4 \<and> (1 / 4 :: real) < 1 \<and> (0::real) \<le> 3 / 4 \<and> (3 / 4 :: real) < 1
   \<and> environmental_data_handler (JString ''27.7'') (JString ''85.3'')
       (weather_response (JNumber (Fin (123 / 10)))) (elevation_response (JNumber (Fin 1400)))
       (1 / 4) (3 / 4) =
     \<lparr>status = 200,
      json = Data (EnvironmentalData (lit ''12.3'') (lit ''1400.0'') (lit ''1399.5'')
        (lit ''1400.1''))\<rparr>
   \<and> (\<exists>rain alt j1 j2.
      upstream precipitation (weather_response (JNumber (Fin (123 / 10)))) = JNumber rain
      \<and> upstream elevation (elevation_response (JNumber (Fin 1400))) = JNumber alt
      \<and> - 1 \<le> j1 \<and> j1 < 1 \<and> - (1 / 4) \<le> j2 \<and> j2 < 1 / 4
      \<and> lit ''1399.5'' = toFixed 1 (js_plus alt (Fin j1))
      \<and> lit ''1400.1'' = toFixed 1 (js_plus alt (Fin j2))
      \<and> (below_1e21 alt \<longrightarrow> one_decimal (lit ''1400.0'')))
   \<and> below_1e21 (Fin 1400) \<and> one_decimal (lit ''1400.0'')"
proof -
  have r: "(0::real) \<le> 1 / 4" "(1 / 4 :: real) < 1" "(0::real) \<le> 3 / 4" "(3 / 4 :: real) < 1"
    by simp_all
  have d: "one_decimal (lit ''1400.0'')"
    by (simp add: one_decimal_def chars_lit one_decimal_string_def is_digit_def)
  from environmental_data_shape [OF r handler_kathmandu] r handler_kathmandu d
  show ?thesis by (simp del: toFixed.simps) blast
qed

end
